theory Spec2Isabelle
  imports Main "HOL-Library.Multiset"
begin

section \<open>Data model of the kingdom sheet\<close>

text \<open>
  The TypeScript sources store every quantity as a JavaScript number; the kingdom sheet
  only ever holds whole numbers there, so they are modelled as \<^typ>\<open>int\<close>.
  Objects with a \<^verbatim>\<open>now\<close> and a \<^verbatim>\<open>next\<close> column share one polymorphic record; the
  second column is called \<open>nxt\<close>, because \<^verbatim>\<open>next\<close> is reserved in Isar.
  Fields keep their names from the sources, except where a name is reserved or already
  taken: \<^verbatim>\<open>size\<close> is \<open>kingdom_size\<close>, \<^verbatim>\<open>value\<close> is \<open>ruin_value\<close> (and \<open>new_value\<close> in
  the result of \<^verbatim>\<open>calculateNewValue\<close>), \<^verbatim>\<open>id\<close> is \<open>feat_id\<close> or \<open>bonus_feat_id\<close>, the
  \<^verbatim>\<open>level\<close> of a feat is \<open>feat_level\<close>, the \<^verbatim>\<open>consumption\<close> and \<^verbatim>\<open>storage\<close> of a settlement
  are \<open>settlement_consumption\<close> and \<open>settlement_storage\<close>, and the \<^verbatim>\<open>resourceDice\<close> of the
  level data is \<open>level_resourceDice\<close>.
\<close>

datatype ResourceTurn = Now | Next

record 'a Columns =
  now :: 'a
  nxt :: 'a

text \<open>Property access \<^verbatim>\<open>obj[turn]\<close> and the spread update \<^verbatim>\<open>{...obj, [turn]: v}\<close>.\<close>

fun column :: "'a Columns \<Rightarrow> ResourceTurn \<Rightarrow> 'a" where
  "column c Now = now c"
| "column c Next = nxt c"

fun set_column :: "'a Columns \<Rightarrow> ResourceTurn \<Rightarrow> 'a \<Rightarrow> 'a Columns" where
  "set_column c Now v = c\<lparr>now := v\<rparr>"
| "set_column c Next v = c\<lparr>nxt := v\<rparr>"

record Commodities =
  food :: int
  luxuries :: int
  ore :: int
  lumber :: int
  stone :: int

type_synonym CommodityStorage = Commodities

record Consumption = "int Columns" +
  armies :: int

record RuinValues =
  ruin_value :: int

record Ruin =
  crime :: RuinValues
  decay :: RuinValues
  corruption :: RuinValues
  strife :: RuinValues

record WorkSite =
  quantity :: int
  resources :: int

record WorkSites =
  mines :: WorkSite
  lumberCamps :: WorkSite
  luxurySources :: WorkSite

record Feat =
  feat_id :: string
  feat_level :: int

record BonusFeat =
  bonus_feat_id :: string

record Kingdom =
  level :: int
  kingdom_size :: int
  atWar :: bool
  unrest :: int
  ruin :: Ruin
  commodities :: "Commodities Columns"
  resourcePoints :: "int Columns"
  resourceDice :: "int Columns"
  consumption :: Consumption
  workSites :: WorkSites
  turnsWithoutEvent :: int
  feats :: "Feat list"
  bonusFeats :: "BonusFeat list"
  skillRanks :: "string \<rightharpoonup> int"

text \<open>
  \<^verbatim>\<open>Partial<Kingdom>\<close>: the argument of \<^verbatim>\<open>update\<close> and \<^verbatim>\<open>saveKingdom\<close>. A field that
  is \<open>None\<close> is absent from the object literal.
\<close>

record KingdomUpdate =
  upd_unrest :: "int option"
  upd_ruin :: "Ruin option"
  upd_commodities :: "Commodities Columns option"
  upd_resourcePoints :: "int Columns option"
  upd_resourceDice :: "int Columns option"
  upd_consumption :: "Consumption option"
  upd_turnsWithoutEvent :: "int option"

definition no_fields :: KingdomUpdate where
  "no_fields = \<lparr>upd_unrest = None, upd_ruin = None, upd_commodities = None,
     upd_resourcePoints = None, upd_resourceDice = None, upd_consumption = None,
     upd_turnsWithoutEvent = None\<rparr>"

text \<open>
  \<^verbatim>\<open>saveKingdom\<close> hands the partial object to \<^verbatim>\<open>setFlag\<close> of the host application. The
  kingdom stored afterwards has every field that the object names replaced by the
  object's value and every other field as before; each object built by the steps below
  names its nested objects in full.
\<close>

definition saveKingdom :: "Kingdom \<Rightarrow> KingdomUpdate \<Rightarrow> Kingdom" where
  "saveKingdom k u =
     k\<lparr>unrest := (case upd_unrest u of None \<Rightarrow> unrest k | Some v \<Rightarrow> v),
       ruin := (case upd_ruin u of None \<Rightarrow> ruin k | Some v \<Rightarrow> v),
       commodities := (case upd_commodities u of None \<Rightarrow> commodities k | Some v \<Rightarrow> v),
       resourcePoints := (case upd_resourcePoints u of None \<Rightarrow> resourcePoints k | Some v \<Rightarrow> v),
       resourceDice := (case upd_resourceDice u of None \<Rightarrow> resourceDice k | Some v \<Rightarrow> v),
       consumption := (case upd_consumption u of None \<Rightarrow> consumption k | Some v \<Rightarrow> v),
       turnsWithoutEvent :=
         (case upd_turnsWithoutEvent u of None \<Rightarrow> turnsWithoutEvent k | Some v \<Rightarrow> v)\<rparr>"

subsection \<open>Chat output\<close>

text \<open>
  What a turn step sends to the chat log, in order. \<open>ChatMessage\<close> stands for
  \<^verbatim>\<open>ChatMessage.create\<close>; its HTML body is kept as the heading of the message and the
  numbers interpolated into it. \<open>RollMessage formula flavor\<close> stands for
  \<^verbatim>\<open>new Roll(formula).roll()\<close> followed by \<^verbatim>\<open>toMessage({flavor})\<close>.
\<close>

datatype ChatContent =
    EndingTurn
  | IgnoringUnrestIncrease
  | GainingUnrest int int int int
  | LoseOneHex
  | FallsIntoAnarchy
  | EventOccurs
  | CollectingResources int int int int int

datatype Chat =
    ChatMessage ChatContent
  | RollMessage string string

text \<open>JavaScript's conversion of a whole number to a string, as used by template strings.\<close>

fun digits :: "nat \<Rightarrow> string" where
  "digits n = (if n < 10 then [''0123456789'' ! n]
               else digits (n div 10) @ [''0123456789'' ! (n mod 10)])"

declare digits.simps [simp del]

definition number_to_string :: "int \<Rightarrow> string" where
  "number_to_string i = (if i < 0 then CHR ''-'' # digits (nat (- i)) else digits (nat i))"

section \<open>Turn steps of \<^verbatim>\<open>KingdomApp\<close> (kingdom.ts)\<close>

subsection \<open>\<^verbatim>\<open>calculateEventDC\<close> and \<^verbatim>\<open>checkForEvent\<close>\<close>

definition calculateEventDC :: "int \<Rightarrow> int" where
  "calculateEventDC turnsWithoutEvent' = max 1 (16 - (turnsWithoutEvent' * 5))"

text \<open>
  \<open>roll_total\<close> is the total of the \<^verbatim>\<open>1d20\<close> roll handed back by the dice port.
  The result is the chat output and the argument of the single \<^verbatim>\<open>update\<close> call.
\<close>

definition checkForEvent :: "Kingdom \<Rightarrow> int \<Rightarrow> Chat list \<times> KingdomUpdate" where
  "checkForEvent kingdom roll_total =
     (let turnsWithoutEvent' = turnsWithoutEvent kingdom;
          dc = calculateEventDC turnsWithoutEvent';
          flavor = ''Checking for Event on DC '' @ number_to_string dc
      in if roll_total \<ge> dc
         then ([RollMessage ''1d20'' flavor, ChatMessage EventOccurs],
               no_fields\<lparr>upd_turnsWithoutEvent := Some 0\<rparr>)
         else ([RollMessage ''1d20'' flavor],
               no_fields\<lparr>upd_turnsWithoutEvent := Some (turnsWithoutEvent' + 1)\<rparr>))"

subsection \<open>\<^verbatim>\<open>reduceUnrest\<close>\<close>

text \<open>The update is \<open>None\<close> when \<^verbatim>\<open>update\<close> is not called at all.\<close>

definition reduceUnrest :: "Kingdom \<Rightarrow> int \<Rightarrow> Chat list \<times> KingdomUpdate option" where
  "reduceUnrest kingdom roll_total =
     ([RollMessage ''1d20'' ''Reducing Unrest by 1 on an 11 or higher''],
      (if roll_total > 10
       then Some (no_fields\<lparr>upd_unrest := Some (max 0 (unrest kingdom - 1))\<rparr>)
       else None))"

text \<open>The kingdom stored on the sheet actor after a step that may or may not write.\<close>

definition committed :: "Kingdom \<Rightarrow> KingdomUpdate option \<Rightarrow> Kingdom" where
  "committed k u = (case u of None \<Rightarrow> k | Some w \<Rightarrow> saveKingdom k w)"

subsection \<open>Settlement scenes and \<^verbatim>\<open>getSettlementData\<close>\<close>

text \<open>
  \<^verbatim>\<open>SettlementData\<close> is declared in a module that is not part of the sources; the
  fields below are the ones \<^verbatim>\<open>getSettlementData\<close> reads. Only the truthiness of
  \<^verbatim>\<open>leadershipActivityBonus\<close> is used. Activities are their string tags.
\<close>

record SettlementData =
  leadershipActivityBonus :: bool
  settlement_consumption :: int
  settlement_storage :: CommodityStorage
  unlockActivities :: "string list"

record CurrentSceneData =
  settlementLevel :: int
  settlementType :: string
  overcrowded :: bool
  secondaryTerritory :: bool

record SettlementSceneData =
  settlement :: SettlementData
  scenedData :: CurrentSceneData

text \<open>The object returned by \<^verbatim>\<open>getSettlementData\<close>; a JavaScript \<^verbatim>\<open>Set\<close> is a HOL set.\<close>

record SettlementTotals =
  leadershipActivityNumber :: int
  settlementConsumption :: int
  storage :: CommodityStorage
  unlockedActivities :: "string set"

text \<open>The callback of \<^verbatim>\<open>map\<close>, the callback of \<^verbatim>\<open>reduce\<close> and its initial value.\<close>

definition settlement_totals :: "SettlementSceneData \<Rightarrow> SettlementTotals" where
  "settlement_totals s =
     \<lparr>leadershipActivityNumber = (if leadershipActivityBonus (settlement s) then 3 else 2),
      settlementConsumption = settlement_consumption (settlement s),
      storage = settlement_storage (settlement s),
      unlockedActivities = set (unlockActivities (settlement s))\<rparr>"

definition merge_totals :: "SettlementTotals \<Rightarrow> SettlementTotals \<Rightarrow> SettlementTotals" where
  "merge_totals prev cur =
     \<lparr>leadershipActivityNumber =
        max (leadershipActivityNumber prev) (leadershipActivityNumber cur),
      settlementConsumption = settlementConsumption prev + settlementConsumption cur,
      storage =
        \<lparr>food = food (storage prev) + food (storage cur),
         luxuries = luxuries (storage prev) + luxuries (storage cur),
         ore = ore (storage prev) + ore (storage cur),
         lumber = lumber (storage prev) + lumber (storage cur),
         stone = stone (storage prev) + stone (storage cur)\<rparr>,
      unlockedActivities = unlockedActivities prev \<union> unlockedActivities cur\<rparr>"

definition initial_totals :: SettlementTotals where
  "initial_totals =
     \<lparr>leadershipActivityNumber = 2,
      settlementConsumption = 0,
      storage = \<lparr>food = 0, luxuries = 0, ore = 0, lumber = 0, stone = 0\<rparr>,
      unlockedActivities = {}\<rparr>"

definition getSettlementData :: "SettlementSceneData list \<Rightarrow> SettlementTotals" where
  "getSettlementData settlements = foldl merge_totals initial_totals (map settlement_totals settlements)"

subsection \<open>Storage capacity\<close>

text \<open>
  \<^verbatim>\<open>getSizeData\<close> and \<^verbatim>\<open>getLevelData\<close> live in the data module, which is not part of
  the sources; the turn steps take them as parameters. The records hold the fields the
  steps read.
\<close>

record KingdomSizeData =
  resourceDieSize :: string
  commodityCapacity :: int

record KingdomLevelData =
  level_resourceDice :: int

definition calculateStorageCapacity :: "int \<Rightarrow> CommodityStorage \<Rightarrow> Commodities" where
  "calculateStorageCapacity capacity storage' =
     \<lparr>food = capacity + food storage',
      luxuries = capacity + luxuries storage',
      ore = capacity + ore storage',
      lumber = capacity + lumber storage',
      stone = capacity + stone storage'\<rparr>"

text \<open>
  \<open>settlements\<close> is what \<^verbatim>\<open>getAllSettlementSceneDataAndStructures(this.game)\<close>
  returns.
\<close>

definition getCapacity :: "SettlementSceneData list \<Rightarrow> KingdomSizeData \<Rightarrow> Commodities" where
  "getCapacity settlements sizeData =
     calculateStorageCapacity (commodityCapacity sizeData) (storage (getSettlementData settlements))"

subsection \<open>\<^verbatim>\<open>endTurn\<close>\<close>

definition endTurn ::
  "(int \<Rightarrow> KingdomSizeData) \<Rightarrow> SettlementSceneData list \<Rightarrow> Kingdom \<Rightarrow> Chat list \<times> KingdomUpdate" where
  "endTurn getSizeData settlements current =
     (let sizeData = getSizeData (kingdom_size current);
          capacity = getCapacity settlements sizeData;
          cnow = now (commodities current);
          cnext = nxt (commodities current)
      in ([ChatMessage EndingTurn],
          no_fields
            \<lparr>upd_resourceDice := Some \<lparr>now = nxt (resourcePoints current), nxt = 0\<rparr>,
             upd_resourcePoints := Some \<lparr>now = nxt (resourcePoints current), nxt = 0\<rparr>,
             upd_consumption := Some
               \<lparr>now = nxt (consumption current), nxt = 0, armies = armies (consumption current)\<rparr>,
             upd_commodities := Some
               \<lparr>now =
                  \<lparr>food = min (food capacity) (food cnow + food cnext),
                   luxuries = min (luxuries capacity) (luxuries cnow + luxuries cnext),
                   ore = min (ore capacity) (ore cnow + ore cnext),
                   lumber = min (lumber capacity) (lumber cnow + lumber cnext),
                   stone = min (stone capacity) (stone cnow + stone cnext)\<rparr>,
                nxt = \<lparr>food = 0, luxuries = 0, ore = 0, lumber = 0, stone = 0\<rparr>\<rparr>\<rparr>))"

subsection \<open>\<^verbatim>\<open>adjustUnrest\<close>\<close>

text \<open>\<^verbatim>\<open>Array.prototype.some\<close>.\<close>

primrec array_some :: "('a \<Rightarrow> bool) \<Rightarrow> 'a list \<Rightarrow> bool" where
  "array_some p [] = False"
| "array_some p (x # xs) = (p x \<or> array_some p xs)"

definition calculateAnarchy :: "Feat list \<Rightarrow> BonusFeat list \<Rightarrow> int" where
  "calculateAnarchy feats' bonusFeats' =
     (let hasEndureAnarchy = array_some (\<lambda>f. feat_id f = ''Endure Anarchy'') feats' \<or>
            array_some (\<lambda>f. bonus_feat_id f = ''Endure Anarchy'') bonusFeats'
      in if hasEndureAnarchy then 24 else 20)"

text \<open>
  \<open>hex_roll_total\<close> is the total of the \<^verbatim>\<open>1d20\<close> hex-loss roll; the total of the
  \<^verbatim>\<open>1d10\<close> ruin roll is only shown in the chat.
\<close>

definition adjustUnrest ::
  "SettlementSceneData list \<Rightarrow> Kingdom \<Rightarrow> int \<Rightarrow> Chat list \<times> KingdomUpdate" where
  "adjustUnrest data current hex_roll_total =
     (let atWar' = (if atWar current then 1 else 0);
          overcrowdedSettlements = int (length (filter (\<lambda>s. overcrowded (scenedData s)) data));
          secondaryTerritories =
            (if array_some (\<lambda>s. secondaryTerritory (scenedData s)) data then 1 else 0);
          newUnrest = atWar' + overcrowdedSettlements + secondaryTerritories;
          unrest0 = newUnrest + unrest current;
          envy = (level current \<ge> 20 \<and> unrest0 > 0);
          unrest' = (if envy then 0 else unrest0)
      in ((if envy then [ChatMessage IgnoringUnrestIncrease] else []) @
          (if unrest' > 0
           then [ChatMessage (GainingUnrest overcrowdedSettlements secondaryTerritories atWar' newUnrest)]
           else []) @
          (if unrest' \<ge> 10
           then [RollMessage ''1d10'' ''Gaining points to Ruin (distribute as you wish)'',
                 RollMessage ''1d20'' ''Check if losing a hex on DC 11''] @
                (if hex_roll_total \<ge> 11 then [ChatMessage LoseOneHex] else [])
           else []) @
          (if unrest' \<ge> calculateAnarchy (feats current) (bonusFeats current)
           then [ChatMessage FallsIntoAnarchy] else []),
          no_fields\<lparr>upd_unrest := Some unrest'\<rparr>))"

subsection \<open>\<^verbatim>\<open>collectResources\<close>\<close>

definition insiderTradingResources :: "Feat list \<Rightarrow> BonusFeat list \<Rightarrow> int" where
  "insiderTradingResources feats' bonusFeat =
     (let hasInsiderTrading = array_some (\<lambda>f. feat_id f = ''Insider Trading'') feats' \<or>
            array_some (\<lambda>f. bonus_feat_id f = ''Insider Trading'') bonusFeat
      in if hasInsiderTrading then 1 else 0)"

text \<open>\<^verbatim>\<open>Omit<Commodities, 'food'>\<close>: the \<open>food\<close> field of the result is not part of the object.\<close>

definition calculateCommoditiesThisTurn :: "Kingdom \<Rightarrow> Commodities" where
  "calculateCommoditiesThisTurn kingdom =
     (let sites = workSites kingdom
      in \<lparr>food = 0,
          luxuries = quantity (luxurySources sites) + resources (luxurySources sites),
          ore = quantity (mines sites) + resources (mines sites),
          lumber = quantity (mines sites) + resources (mines sites),
          stone = quantity (lumberCamps sites) + resources (lumberCamps sites)\<rparr>)"

text \<open>
  The local \<^verbatim>\<open>dice\<close> of \<^verbatim>\<open>collectResources\<close>. The source passes the kingdom's size to
  \<^verbatim>\<open>getLevelData\<close>.
\<close>

definition resource_dice_count :: "(int \<Rightarrow> KingdomLevelData) \<Rightarrow> Kingdom \<Rightarrow> int" where
  "resource_dice_count getLevelData current =
     (let levelData = getLevelData (kingdom_size current);
          featDice = insiderTradingResources (feats current) (bonusFeats current)
      in level_resourceDice levelData + now (resourceDice current) + featDice)"

text \<open>
  \<^verbatim>\<open>rollResourceDice\<close> builds the formula by \<^verbatim>\<open>dice + resourceDieSize\<close>, a number
  concatenated with a string; \<open>rolledPoints\<close> is the total the dice port returns for it.
\<close>

definition rollResourceDice_formula :: "string \<Rightarrow> int \<Rightarrow> string" where
  "rollResourceDice_formula resourceDieSize' dice = number_to_string dice @ resourceDieSize'"

definition collectResources ::
  "(int \<Rightarrow> KingdomLevelData) \<Rightarrow> (int \<Rightarrow> KingdomSizeData) \<Rightarrow> SettlementSceneData list \<Rightarrow>
   Kingdom \<Rightarrow> int \<Rightarrow> Chat list \<times> KingdomUpdate" where
  "collectResources getLevelData getSizeData settlements current rolledPoints =
     (let sizeData = getSizeData (kingdom_size current);
          capacity = getCapacity settlements sizeData;
          dice = resource_dice_count getLevelData current;
          commodities' = calculateCommoditiesThisTurn current
      in ([RollMessage (rollResourceDice_formula (resourceDieSize sizeData) dice) ''Rolling Resource Dice'',
           ChatMessage (CollectingResources rolledPoints (ore commodities') (lumber commodities')
             (stone commodities') (luxuries commodities'))],
          no_fields
            \<lparr>upd_resourcePoints := Some
               \<lparr>now = now (resourcePoints current) + rolledPoints, nxt = nxt (resourcePoints current)\<rparr>,
             upd_resourceDice := Some \<lparr>now = 0, nxt = nxt (resourceDice current)\<rparr>,
             upd_commodities := Some
               \<lparr>now =
                  \<lparr>food = food (now (commodities current)),
                   luxuries = min (luxuries capacity) (luxuries commodities'),
                   ore = min (ore capacity) (ore commodities'),
                   lumber = min (lumber capacity) (lumber commodities'),
                   stone = min (stone capacity) (stone commodities')\<rparr>,
                nxt = nxt (commodities current)\<rparr>\<rparr>))"

section \<open>Resource buttons (resources module)\<close>

text \<open>
  A resource tag reaches these functions as the string read from the button's data
  attribute, so it is modelled as a string; the last branch of each chain is the
  \<^verbatim>\<open>throw Error(`Unhandled type ${type}`)\<close>.
\<close>

datatype error = UnhandledType string

datatype ResourceMode = Gain | Lose

record ResourceValues =
  new_value :: int
  message :: string
  missingMessage :: string

text \<open>The local \<^verbatim>\<open>missing\<close> of \<^verbatim>\<open>calculateNewValue\<close>, from the local \<^verbatim>\<open>value\<close>.\<close>

definition missing_amount :: "int \<Rightarrow> int" where
  "missing_amount v = (if v < 0 then \<bar>v\<bar> else 0)"

text \<open>
  \<open>unslugify\<close> comes from the utilities module, which is not part of the sources, and is
  a parameter. An absent \<^verbatim>\<open>limit\<close> is \<open>None\<close>.
\<close>

definition calculateNewValue ::
  "(string \<Rightarrow> string) \<Rightarrow> int \<Rightarrow> int \<Rightarrow> string \<Rightarrow> ResourceTurn \<Rightarrow> ResourceMode \<Rightarrow> int option \<Rightarrow>
   ResourceValues" where
  "calculateNewValue unslugify currentValue newValue type turn mode limit =
     (let v = (if mode = Gain then currentValue + newValue else currentValue - newValue);
          missing = missing_amount v;
          limitedValue = (case limit of None \<Rightarrow> v | Some l \<Rightarrow> max l v);
          label = unslugify type;
          turnLabel = (if turn = Now then ''this turn'' else ''next turn'');
          message' = (if mode = Gain then ''Gaining'' else ''Losing'') @ '' '' @
            number_to_string limitedValue @ '' '' @ label @ '' '' @ turnLabel;
          missingMessage' =
            (if missing > 0 \<and> turn = Now
             then ''Missing '' @ number_to_string missing @ '' '' @ label else [])
      in \<lparr>new_value = limitedValue, message = message', missingMessage = missingMessage'\<rparr>)"

text \<open>
  Property access by tag on the commodity and ruin objects. Both are only reached
  behind a test that the tag is one of the object's keys.
\<close>

definition commodity_at :: "Commodities \<Rightarrow> string \<Rightarrow> int" where
  "commodity_at c type =
     (if type = ''food'' then food c
      else if type = ''luxuries'' then luxuries c
      else if type = ''ore'' then ore c
      else if type = ''lumber'' then lumber c
      else stone c)"

definition commodity_set :: "Commodities \<Rightarrow> string \<Rightarrow> int \<Rightarrow> Commodities" where
  "commodity_set c type v =
     (if type = ''food'' then c\<lparr>food := v\<rparr>
      else if type = ''luxuries'' then c\<lparr>luxuries := v\<rparr>
      else if type = ''ore'' then c\<lparr>ore := v\<rparr>
      else if type = ''lumber'' then c\<lparr>lumber := v\<rparr>
      else c\<lparr>stone := v\<rparr>)"

definition ruin_at :: "Ruin \<Rightarrow> string \<Rightarrow> RuinValues" where
  "ruin_at r type =
     (if type = ''crime'' then crime r
      else if type = ''decay'' then decay r
      else if type = ''strife'' then strife r
      else corruption r)"

definition ruin_set :: "Ruin \<Rightarrow> string \<Rightarrow> RuinValues \<Rightarrow> Ruin" where
  "ruin_set r type v =
     (if type = ''crime'' then r\<lparr>crime := v\<rparr>
      else if type = ''decay'' then r\<lparr>decay := v\<rparr>
      else if type = ''strife'' then r\<lparr>strife := v\<rparr>
      else r\<lparr>corruption := v\<rparr>)"

definition getCurrentValue :: "Kingdom \<Rightarrow> string \<Rightarrow> ResourceTurn \<Rightarrow> error + int" where
  "getCurrentValue kingdom type turn =
     (if type = ''food'' \<or> type = ''luxuries'' \<or> type = ''ore'' \<or> type = ''lumber'' \<or> type = ''stone''
      then Inr (commodity_at (column (commodities kingdom) turn) type)
      else if type = ''unrest'' then Inr (unrest kingdom)
      else if type = ''resource-dice'' then Inr (column (resourceDice kingdom) turn)
      else if type = ''resource-points'' \<or> type = ''roll-resource-dice''
      then Inr (column (resourcePoints kingdom) turn)
      else if type = ''crime'' \<or> type = ''decay'' \<or> type = ''strife'' \<or> type = ''corruption''
      then Inr (ruin_value (ruin_at (ruin kingdom) type))
      else Inl (UnhandledType type))"

definition createUpdate :: "Kingdom \<Rightarrow> string \<Rightarrow> ResourceTurn \<Rightarrow> int \<Rightarrow> error + KingdomUpdate" where
  "createUpdate kingdom type turn v =
     (if type = ''roll-resource-dice'' \<or> type = ''resource-points''
      then Inr (no_fields\<lparr>upd_resourcePoints := Some (set_column (resourcePoints kingdom) turn v)\<rparr>)
      else if type = ''resource-dice''
      then Inr (no_fields\<lparr>upd_resourceDice := Some (set_column (resourceDice kingdom) turn v)\<rparr>)
      else if type = ''unrest'' then Inr (no_fields\<lparr>upd_unrest := Some v\<rparr>)
      else if type = ''strife'' \<or> type = ''crime'' \<or> type = ''decay'' \<or> type = ''corruption''
      then Inr (no_fields\<lparr>upd_ruin := Some
             (ruin_set (ruin kingdom) type ((ruin_at (ruin kingdom) type)\<lparr>ruin_value := v\<rparr>))\<rparr>)
      else if type = ''lumber'' \<or> type = ''ore'' \<or> type = ''stone'' \<or> type = ''food'' \<or> type = ''luxuries''
      then Inr (no_fields\<lparr>upd_commodities := Some
             (set_column (commodities kingdom) turn
                (commodity_set (column (commodities kingdom) turn) type v))\<rparr>)
      else Inl (UnhandledType type))"

text \<open>The closed set of tags of the type \<^verbatim>\<open>RolledResources\<close>.\<close>

definition RolledResources :: "string set" where
  "RolledResources =
     {''resource-dice'', ''crime'', ''decay'', ''corruption'', ''strife'', ''resource-points'',
      ''food'', ''luxuries'', ''unrest'', ''ore'', ''lumber'', ''stone'', ''roll-resource-dice''}"

section \<open>Structure browser\<close>

record SkillRequirement =
  skill :: string
  proficiencyRank :: "int option"

text \<open>
  The construction data of a structure; \<open>None\<close> is \<^verbatim>\<open>undefined\<close>. Only the skill
  requirements matter to \<^verbatim>\<open>checkProficiency\<close>.
\<close>

record Construction =
  skills :: "SkillRequirement list option"

record Structure =
  construction :: "Construction option"

text \<open>
  One requirement against the kingdom's ranks. A skill without a recorded rank reads as
  \<^verbatim>\<open>undefined\<close>, and \<^verbatim>\<open>undefined >= n\<close> is false.
\<close>

definition requirement_met :: "Kingdom \<Rightarrow> SkillRequirement \<Rightarrow> bool" where
  "requirement_met kingdom requirement =
     (case skillRanks kingdom (skill requirement) of
        None \<Rightarrow> False
      | Some rank \<Rightarrow> rank \<ge> (case proficiencyRank requirement of None \<Rightarrow> 0 | Some r \<Rightarrow> r))"

text \<open>\<^verbatim>\<open>structure.construction?.skills\<close>.\<close>

definition construction_skills :: "Structure \<Rightarrow> SkillRequirement list option" where
  "construction_skills structure =
     (case construction structure of None \<Rightarrow> None | Some c \<Rightarrow> skills c)"

definition checkProficiency :: "Structure \<Rightarrow> Kingdom \<Rightarrow> bool" where
  "checkProficiency structure kingdom =
     (case construction_skills structure of
        None \<Rightarrow> True
      | Some reqs \<Rightarrow> length reqs = 0 \<or> array_some (requirement_met kingdom) reqs)"

section \<open>Sample data\<close>

text \<open>A concrete kingdom on which the theorems below are instantiated.\<close>

definition sample_kingdom :: Kingdom where
  "sample_kingdom =
     \<lparr>level = 5, kingdom_size = 12, atWar = False, unrest = 3,
      ruin = \<lparr>crime = \<lparr>ruin_value = 1\<rparr>, decay = \<lparr>ruin_value = 2\<rparr>,
              corruption = \<lparr>ruin_value = 3\<rparr>, strife = \<lparr>ruin_value = 4\<rparr>\<rparr>,
      commodities =
        \<lparr>now = \<lparr>food = 4, luxuries = 1, ore = 3, lumber = 2, stone = 5\<rparr>,
         nxt = \<lparr>food = 1, luxuries = 2, ore = 6, lumber = 1, stone = 0\<rparr>\<rparr>,
      resourcePoints = \<lparr>now = 7, nxt = 5\<rparr>,
      resourceDice = \<lparr>now = 2, nxt = 1\<rparr>,
      consumption = \<lparr>now = 3, nxt = 2, armies = 1\<rparr>,
      workSites =
        \<lparr>mines = \<lparr>quantity = 1, resources = 0\<rparr>,
         lumberCamps = \<lparr>quantity = 2, resources = 1\<rparr>,
         luxurySources = \<lparr>quantity = 0, resources = 0\<rparr>\<rparr>,
      turnsWithoutEvent = 2,
      feats = [],
      bonusFeats = [],
      skillRanks = [''trade'' \<mapsto> 1, ''arts'' \<mapsto> 0]\<rparr>"

text \<open>Two settlement scenes: a capital and an overcrowded village in a secondary territory.\<close>

definition sample_capital :: SettlementSceneData where
  "sample_capital =
     \<lparr>settlement =
        \<lparr>leadershipActivityBonus = True, settlement_consumption = 2,
         settlement_storage = \<lparr>food = 1, luxuries = 0, ore = 2, lumber = 0, stone = 1\<rparr>,
         unlockActivities = [''establish-trade-agreement'', ''quell-unrest'']\<rparr>,
      scenedData =
        \<lparr>settlementLevel = 3, settlementType = ''Capital'', overcrowded = False,
         secondaryTerritory = False\<rparr>\<rparr>"

definition sample_village :: SettlementSceneData where
  "sample_village =
     \<lparr>settlement =
        \<lparr>leadershipActivityBonus = False, settlement_consumption = 1,
         settlement_storage = \<lparr>food = 0, luxuries = 1, ore = 0, lumber = 4, stone = 0\<rparr>,
         unlockActivities = [''quell-unrest'']\<rparr>,
      scenedData =
        \<lparr>settlementLevel = 1, settlementType = ''Settlement'', overcrowded = True,
         secondaryTerritory = True\<rparr>\<rparr>"

text \<open>A structure with two alternative construction skills, and data tables for the kingdom.\<close>

definition trade_trained :: SkillRequirement where
  "trade_trained = \<lparr>skill = ''trade'', proficiencyRank = Some 1\<rparr>"

definition arts_master :: SkillRequirement where
  "arts_master = \<lparr>skill = ''arts'', proficiencyRank = Some 3\<rparr>"

definition sample_structure :: Structure where
  "sample_structure = \<lparr>construction = Some \<lparr>skills = Some [trade_trained, arts_master]\<rparr>\<rparr>"

text \<open>
  Stand-ins for the data tables \<^verbatim>\<open>getLevelData\<close> and \<^verbatim>\<open>getSizeData\<close>: five base
  resource dice, a d6 resource die and a base commodity capacity of 4 at every size.
\<close>

definition sample_getLevelData :: "int \<Rightarrow> KingdomLevelData" where
  "sample_getLevelData n = \<lparr>level_resourceDice = 5\<rparr>"

definition sample_getSizeData :: "int \<Rightarrow> KingdomSizeData" where
  "sample_getSizeData n = \<lparr>resourceDieSize = ''d6'', commodityCapacity = 4\<rparr>"

definition insider_trading :: Feat where
  "insider_trading = \<lparr>feat_id = ''Insider Trading'', feat_level = 2\<rparr>"

section \<open>Properties of the turn steps\<close>

text \<open>
  Claim C8. For every non-negative \<open>turnsWithoutEvent\<close> counter, \<^verbatim>\<open>checkForEvent\<close> uses the
  DC \<open>max 1 (16 - 5 * turnsWithoutEvent)\<close>, which is 16, 11, 6, 1 for the counters 0, 1, 2, 3
  and never falls below 1. A d20 total at or above the DC writes \<open>turnsWithoutEvent = 0\<close>
  and posts the "an event occurs" message; a total below the DC writes the counter plus
  one and posts no such message.
\<close>

theorem checkForEvent_dc:
  "0 \<le> t \<Longrightarrow>
   calculateEventDC t = max 1 (16 - 5 * t) \<and> 1 \<le> calculateEventDC t \<and>
   calculateEventDC 0 = 16 \<and> calculateEventDC 1 = 11 \<and>
   calculateEventDC 2 = 6 \<and> calculateEventDC 3 = 1 \<and>
   (turnsWithoutEvent k = t \<longrightarrow>
     (roll \<ge> calculateEventDC t \<longrightarrow>
        snd (checkForEvent k roll) = no_fields\<lparr>upd_turnsWithoutEvent := Some 0\<rparr> \<and>
        turnsWithoutEvent (saveKingdom k (snd (checkForEvent k roll))) = 0 \<and>
        ChatMessage EventOccurs \<in> set (fst (checkForEvent k roll))) \<and>
     (roll < calculateEventDC t \<longrightarrow>
        snd (checkForEvent k roll) = no_fields\<lparr>upd_turnsWithoutEvent := Some (t + 1)\<rparr> \<and>
        turnsWithoutEvent (saveKingdom k (snd (checkForEvent k roll))) = t + 1 \<and>
        ChatMessage EventOccurs \<notin> set (fst (checkForEvent k roll))))"
  by (auto simp: calculateEventDC_def checkForEvent_def saveKingdom_def no_fields_def Let_def)

theorem checkForEvent_dc_witness:
  "(0::int) \<le> 2 \<and> turnsWithoutEvent sample_kingdom = 2 \<and> calculateEventDC 2 = 6 \<and>
   turnsWithoutEvent (saveKingdom sample_kingdom (snd (checkForEvent sample_kingdom 6))) = 0 \<and>
   turnsWithoutEvent (saveKingdom sample_kingdom (snd (checkForEvent sample_kingdom 5))) = 3"
proof -
  have t: "turnsWithoutEvent sample_kingdom = 2"
    by (simp add: sample_kingdom_def)
  have dc: "calculateEventDC 2 = 6"
    by (simp add: calculateEventDC_def)
  have hit: "turnsWithoutEvent (saveKingdom sample_kingdom (snd (checkForEvent sample_kingdom 6))) = 0"
    using checkForEvent_dc [of 2 sample_kingdom 6] t dc
    by (simp add: saveKingdom_def no_fields_def)
  have miss: "turnsWithoutEvent (saveKingdom sample_kingdom (snd (checkForEvent sample_kingdom 5))) = 3"
    using checkForEvent_dc [of 2 sample_kingdom 5] t dc
    by (simp add: saveKingdom_def no_fields_def)
  show ?thesis using t dc hit miss by simp
qed

text \<open>
  Claim C10 as stated fails in its last part. On a total of 10 or less nothing is
  written, so unrest that is already negative stays negative; and unrest can be
  negative, because the "lose" button writes \<open>current - delta\<close> for the tag \<^verbatim>\<open>unrest\<close>
  without a limit. A kingdom with 1 unrest that loses 3 holds -2 unrest, and a roll of 10
  leaves it at -2.
\<close>

theorem reduceUnrest_negative_counterexample:
  "new_value (calculateNewValue id 1 3 ''unrest'' Now Lose None) = - 2 \<and>
   createUpdate sample_kingdom ''unrest'' Now (- 2) = Inr (no_fields\<lparr>upd_unrest := Some (- 2)\<rparr>) \<and>
   unrest (saveKingdom sample_kingdom (no_fields\<lparr>upd_unrest := Some (- 2)\<rparr>)) = - 2 \<and>
   snd (reduceUnrest (sample_kingdom\<lparr>unrest := - 2\<rparr>) 10) = None \<and>
   unrest (committed (sample_kingdom\<lparr>unrest := - 2\<rparr>)
     (snd (reduceUnrest (sample_kingdom\<lparr>unrest := - 2\<rparr>) 10))) = - 2"
  by (simp add: calculateNewValue_def missing_amount_def createUpdate_def saveKingdom_def
      no_fields_def reduceUnrest_def committed_def Let_def)

text \<open>
  Claim C10, amended. \<^verbatim>\<open>reduceUnrest\<close> writes to the kingdom only when the d20 total is
  strictly greater than 10, and then unrest becomes \<open>max 0 (unrest - 1)\<close>, which is never
  negative; on a total of 10 or less \<^verbatim>\<open>update\<close> is not called and no field of the kingdom
  changes. So the resulting unrest is negative exactly when the total is 10 or less and
  the unrest was negative before.
\<close>

theorem reduceUnrest_writes:
  "(roll > 10 \<longrightarrow>
      snd (reduceUnrest k roll) = Some (no_fields\<lparr>upd_unrest := Some (max 0 (unrest k - 1))\<rparr>) \<and>
      committed k (snd (reduceUnrest k roll)) = k\<lparr>unrest := max 0 (unrest k - 1)\<rparr> \<and>
      0 \<le> unrest (committed k (snd (reduceUnrest k roll)))) \<and>
   (roll \<le> 10 \<longrightarrow>
      snd (reduceUnrest k roll) = None \<and> committed k (snd (reduceUnrest k roll)) = k) \<and>
   (unrest (committed k (snd (reduceUnrest k roll))) < 0 \<longleftrightarrow> roll \<le> 10 \<and> unrest k < 0)"
  by (auto simp: reduceUnrest_def committed_def saveKingdom_def no_fields_def)

theorem reduceUnrest_writes_witness:
  "(11::int) > 10 \<and> (10::int) \<le> 10 \<and>
   unrest (committed sample_kingdom (snd (reduceUnrest sample_kingdom 11))) = 2 \<and>
   committed sample_kingdom (snd (reduceUnrest sample_kingdom 10)) = sample_kingdom \<and>
   0 \<le> unrest (committed (sample_kingdom\<lparr>unrest := - 2\<rparr>)
     (snd (reduceUnrest (sample_kingdom\<lparr>unrest := - 2\<rparr>) 11))) \<and>
   unrest (committed (sample_kingdom\<lparr>unrest := - 2\<rparr>)
     (snd (reduceUnrest (sample_kingdom\<lparr>unrest := - 2\<rparr>) 10))) < 0"
proof -
  let ?neg = "sample_kingdom\<lparr>unrest := - 2\<rparr>"
  have u: "unrest sample_kingdom = 3"
    by (simp add: sample_kingdom_def)
  have hit: "unrest (committed sample_kingdom (snd (reduceUnrest sample_kingdom 11))) = 2"
    using reduceUnrest_writes [of 11 sample_kingdom] u
    by (simp add: committed_def saveKingdom_def no_fields_def)
  have miss: "committed sample_kingdom (snd (reduceUnrest sample_kingdom 10)) = sample_kingdom"
    using reduceUnrest_writes [of 10 sample_kingdom] by (simp add: committed_def)
  have floor: "0 \<le> unrest (committed ?neg (snd (reduceUnrest ?neg 11)))"
    using reduceUnrest_writes [of 11 ?neg]
    by (simp add: committed_def saveKingdom_def no_fields_def)
  have stays: "unrest (committed ?neg (snd (reduceUnrest ?neg 10))) < 0"
    using reduceUnrest_writes [of 10 ?neg] by (simp add: committed_def)
  show ?thesis using hit miss floor stays by simp
qed

section \<open>Properties of the resource buttons\<close>

text \<open>
  Claim C4. For non-negative current value \<open>c\<close> and delta \<open>d\<close>, \<^verbatim>\<open>calculateNewValue\<close>
  returns \<open>c + d\<close> when gaining and \<open>c - d\<close> when losing without a limit, the shortfall
  \<^verbatim>\<open>missing\<close> of a loss being \<open>max 0 (d - c)\<close>; with a limit the value is the maximum of
  the limit and \<open>c \<plusminus> d\<close>. The shortfall message is non-empty only for the \<^verbatim>\<open>now\<close>
  column (and then exactly when the loss exceeds the current value), never for \<^verbatim>\<open>next\<close>.
\<close>

theorem calculateNewValue_ledger:
  "0 \<le> c \<Longrightarrow> 0 \<le> d \<Longrightarrow>
   new_value (calculateNewValue u c d ty turn Gain None) = c + d \<and>
   new_value (calculateNewValue u c d ty turn Lose None) = c - d \<and>
   missing_amount (c - d) = max 0 (d - c) \<and>
   new_value (calculateNewValue u c d ty turn Gain (Some l)) = max l (c + d) \<and>
   new_value (calculateNewValue u c d ty turn Lose (Some l)) = max l (c - d) \<and>
   (missingMessage (calculateNewValue u c d ty turn mode lim) \<noteq> [] \<longleftrightarrow>
      turn = Now \<and> mode = Lose \<and> c < d) \<and>
   (turn = Now \<and> c < d \<longrightarrow>
      missingMessage (calculateNewValue u c d ty turn Lose lim) =
        ''Missing '' @ number_to_string (max 0 (d - c)) @ '' '' @ u ty) \<and>
   missingMessage (calculateNewValue u c d ty Next mode lim) = []"
  by (cases mode) (auto simp: calculateNewValue_def missing_amount_def Let_def)

theorem calculateNewValue_ledger_witness:
  "(0::int) \<le> 3 \<and> (0::int) \<le> 5 \<and>
   new_value (calculateNewValue id 3 5 ''food'' Now Lose None) = - 2 \<and>
   new_value (calculateNewValue id 3 5 ''food'' Now Gain (Some 10)) = 10 \<and>
   missingMessage (calculateNewValue id 3 5 ''food'' Now Lose None) = ''Missing 2 food'' \<and>
   missingMessage (calculateNewValue id 3 5 ''food'' Next Lose None) = []"
  using calculateNewValue_ledger [of 3 5 id "''food''" Now 10 Lose None]
    calculateNewValue_ledger [of 3 5 id "''food''" Next 10 Lose None]
  by (simp add: number_to_string_def digits.simps)

text \<open>
  Claim C7. \<^verbatim>\<open>getCurrentValue\<close> and \<^verbatim>\<open>createUpdate\<close> handle the same closed set of
  resource tags and throw the unhandled-type error for every other tag; for
  \<^verbatim>\<open>unrest\<close>, \<^verbatim>\<open>crime\<close>, \<^verbatim>\<open>decay\<close>, \<^verbatim>\<open>strife\<close> and \<^verbatim>\<open>corruption\<close> neither depends on the
  turn; and \<^verbatim>\<open>roll-resource-dice\<close> reads and writes the resource-points field, as
  \<^verbatim>\<open>resource-points\<close> does.
\<close>

theorem resolver_lockstep:
  "(getCurrentValue k t turn = Inl (UnhandledType t) \<longleftrightarrow> t \<notin> RolledResources) \<and>
   (createUpdate k t turn v = Inl (UnhandledType t) \<longleftrightarrow> t \<notin> RolledResources) \<and>
   (t \<in> RolledResources \<longrightarrow>
      (\<exists>x. getCurrentValue k t turn = Inr x) \<and> (\<exists>w. createUpdate k t turn v = Inr w)) \<and>
   (t \<in> {''unrest'', ''crime'', ''decay'', ''strife'', ''corruption''} \<longrightarrow>
      getCurrentValue k t Now = getCurrentValue k t Next \<and>
      createUpdate k t Now v = createUpdate k t Next v) \<and>
   getCurrentValue k ''roll-resource-dice'' turn = Inr (column (resourcePoints k) turn) \<and>
   getCurrentValue k ''resource-points'' turn = Inr (column (resourcePoints k) turn) \<and>
   createUpdate k ''roll-resource-dice'' turn v =
     Inr (no_fields\<lparr>upd_resourcePoints := Some (set_column (resourcePoints k) turn v)\<rparr>) \<and>
   createUpdate k ''resource-points'' turn v =
     Inr (no_fields\<lparr>upd_resourcePoints := Some (set_column (resourcePoints k) turn v)\<rparr>)"
  by (simp add: getCurrentValue_def createUpdate_def RolledResources_def)

theorem resolver_lockstep_witness:
  "''unrest'' \<in> RolledResources \<and> ''fame'' \<notin> RolledResources \<and>
   getCurrentValue sample_kingdom ''fame'' Now = Inl (UnhandledType ''fame'') \<and>
   createUpdate sample_kingdom ''fame'' Now 1 = Inl (UnhandledType ''fame'') \<and>
   getCurrentValue sample_kingdom ''unrest'' Now = getCurrentValue sample_kingdom ''unrest'' Next \<and>
   createUpdate sample_kingdom ''unrest'' Now 1 = createUpdate sample_kingdom ''unrest'' Next 1"
proof -
  have inside: "''unrest'' \<in> RolledResources" and outside: "''fame'' \<notin> RolledResources"
    by (simp_all add: RolledResources_def)
  show ?thesis
    using inside outside resolver_lockstep [of sample_kingdom "''fame''" Now 1]
      resolver_lockstep [of sample_kingdom "''unrest''" Now 1]
    by simp
qed

section \<open>Properties of the settlement aggregation\<close>

text \<open>The reducer of \<^verbatim>\<open>getSettlementData\<close> is commutative and associative.\<close>

lemma merge_totals_commute: "merge_totals a b = merge_totals b a"
  by (simp add: merge_totals_def max.commute Un_commute)

lemma merge_totals_assoc: "merge_totals (merge_totals a b) c = merge_totals a (merge_totals b c)"
  by (simp add: merge_totals_def max.assoc Un_assoc)

lemma merge_totals_left_commute:
  "merge_totals (merge_totals a b) c = merge_totals (merge_totals a c) b"
  by (metis merge_totals_assoc merge_totals_commute)

lemma foldl_merge_totals:
  "foldl merge_totals (merge_totals a b) ts = merge_totals a (foldl merge_totals b ts)"
  by (induction ts arbitrary: b) (simp_all add: merge_totals_assoc)

lemma foldl_merge_totals_perm:
  assumes "mset ts = mset us"
  shows "foldl merge_totals a ts = foldl merge_totals a us"
proof -
  have "fold (\<lambda>x s. merge_totals s x) ts = fold (\<lambda>x s. merge_totals s x) us"
    by (rule fold_multiset_equiv [OF _ assms]) (auto simp: fun_eq_iff merge_totals_left_commute)
  then show ?thesis
    by (simp add: foldl_conv_fold)
qed

lemma leadership_foldl:
  "leadershipActivityNumber (foldl merge_totals a ts) =
     Max (insert (leadershipActivityNumber a) (leadershipActivityNumber ` set ts))"
proof (induction ts arbitrary: a)
  case Nil
  show ?case by simp
next
  case (Cons t ts)
  have "Max (insert (max (leadershipActivityNumber a) (leadershipActivityNumber t))
             (leadershipActivityNumber ` set ts)) =
        Max (insert (leadershipActivityNumber a)
             (insert (leadershipActivityNumber t) (leadershipActivityNumber ` set ts)))"
    by (cases "set ts = {}") (simp_all add: max.assoc)
  with Cons show ?case
    by (simp add: merge_totals_def)
qed

lemma consumption_foldl:
  "settlementConsumption (foldl merge_totals a ts) =
     settlementConsumption a + sum_list (map settlementConsumption ts)"
  by (induction ts arbitrary: a) (simp_all add: merge_totals_def)

lemma storage_foldl:
  "storage (foldl merge_totals a ts) =
     \<lparr>food = food (storage a) + sum_list (map (\<lambda>t. food (storage t)) ts),
      luxuries = luxuries (storage a) + sum_list (map (\<lambda>t. luxuries (storage t)) ts),
      ore = ore (storage a) + sum_list (map (\<lambda>t. ore (storage t)) ts),
      lumber = lumber (storage a) + sum_list (map (\<lambda>t. lumber (storage t)) ts),
      stone = stone (storage a) + sum_list (map (\<lambda>t. stone (storage t)) ts)\<rparr>"
  by (induction ts arbitrary: a) (simp_all add: merge_totals_def)

lemma activities_foldl:
  "unlockedActivities (foldl merge_totals a ts) =
     unlockedActivities a \<union> (\<Union>t\<in>set ts. unlockedActivities t)"
  by (induction ts arbitrary: a) (auto simp: merge_totals_def)

lemma leadership_at_least_two: "2 \<le> leadershipActivityNumber (getSettlementData xs)"
  by (simp add: getSettlementData_def leadership_foldl initial_totals_def)

lemma merge_initial_totals:
  "2 \<le> leadershipActivityNumber a \<Longrightarrow> merge_totals a initial_totals = a"
  by (simp add: merge_totals_def initial_totals_def)

lemma getSettlementData_append:
  "getSettlementData (xs @ ys) = merge_totals (getSettlementData xs) (getSettlementData ys)"
proof -
  let ?a = "getSettlementData xs"
  have "getSettlementData (xs @ ys) = foldl merge_totals ?a (map settlement_totals ys)"
    by (simp add: getSettlementData_def)
  also have "\<dots> = foldl merge_totals (merge_totals ?a initial_totals) (map settlement_totals ys)"
    by (simp add: merge_initial_totals leadership_at_least_two)
  also have "\<dots> = merge_totals ?a (getSettlementData ys)"
    by (simp add: foldl_merge_totals getSettlementData_def)
  finally show ?thesis .
qed

text \<open>
  Claim C9. \<^verbatim>\<open>getSettlementData\<close> folds the per-settlement aggregates from the accumulator
  with leadership activity number 2, consumption 0, empty storage and no activities: it
  sums the consumption, sums the storage per commodity, takes the maximum of the
  leadership activity numbers and the union of the unlocked activities. The reducer is
  commutative and associative, so the result does not depend on the order of the list
  (equal multisets of settlements give equal totals) nor on how the list is split into
  groups that are merged afterwards; the empty list gives the accumulator.
\<close>

theorem getSettlementData_fold:
  "getSettlementData [] = initial_totals \<and>
   initial_totals =
     \<lparr>leadershipActivityNumber = 2, settlementConsumption = 0,
      storage = \<lparr>food = 0, luxuries = 0, ore = 0, lumber = 0, stone = 0\<rparr>,
      unlockedActivities = {}\<rparr> \<and>
   getSettlementData (xs @ [s]) = merge_totals (getSettlementData xs) (settlement_totals s) \<and>
   settlementConsumption (getSettlementData xs) =
     sum_list (map (\<lambda>x. settlement_consumption (settlement x)) xs) \<and>
   storage (getSettlementData xs) =
     \<lparr>food = sum_list (map (\<lambda>x. food (settlement_storage (settlement x))) xs),
      luxuries = sum_list (map (\<lambda>x. luxuries (settlement_storage (settlement x))) xs),
      ore = sum_list (map (\<lambda>x. ore (settlement_storage (settlement x))) xs),
      lumber = sum_list (map (\<lambda>x. lumber (settlement_storage (settlement x))) xs),
      stone = sum_list (map (\<lambda>x. stone (settlement_storage (settlement x))) xs)\<rparr> \<and>
   leadershipActivityNumber (getSettlementData xs) =
     Max (insert 2 ((\<lambda>x. if leadershipActivityBonus (settlement x) then 3 else 2) ` set xs)) \<and>
   unlockedActivities (getSettlementData xs) =
     (\<Union>x\<in>set xs. set (unlockActivities (settlement x))) \<and>
   merge_totals a b = merge_totals b a \<and>
   merge_totals (merge_totals a b) c = merge_totals a (merge_totals b c) \<and>
   (mset xs = mset ys \<longrightarrow> getSettlementData xs = getSettlementData ys) \<and>
   getSettlementData (xs @ ys) = merge_totals (getSettlementData xs) (getSettlementData ys) \<and>
   merge_totals (getSettlementData (xs @ ys)) (getSettlementData zs) =
     merge_totals (getSettlementData xs) (getSettlementData (ys @ zs))"
proof -
  have empty: "getSettlementData [] = initial_totals"
    by (simp add: getSettlementData_def)
  have step: "getSettlementData (xs @ [s]) = merge_totals (getSettlementData xs) (settlement_totals s)"
    by (simp add: getSettlementData_def)
  have cons: "settlementConsumption (getSettlementData xs) =
      sum_list (map (\<lambda>x. settlement_consumption (settlement x)) xs)"
    by (simp add: getSettlementData_def consumption_foldl initial_totals_def
        settlement_totals_def comp_def)
  have stor: "storage (getSettlementData xs) =
     \<lparr>food = sum_list (map (\<lambda>x. food (settlement_storage (settlement x))) xs),
      luxuries = sum_list (map (\<lambda>x. luxuries (settlement_storage (settlement x))) xs),
      ore = sum_list (map (\<lambda>x. ore (settlement_storage (settlement x))) xs),
      lumber = sum_list (map (\<lambda>x. lumber (settlement_storage (settlement x))) xs),
      stone = sum_list (map (\<lambda>x. stone (settlement_storage (settlement x))) xs)\<rparr>"
    by (simp add: getSettlementData_def storage_foldl initial_totals_def
        settlement_totals_def comp_def)
  have lead: "leadershipActivityNumber (getSettlementData xs) =
     Max (insert 2 ((\<lambda>x. if leadershipActivityBonus (settlement x) then 3 else 2) ` set xs))"
    by (simp add: getSettlementData_def leadership_foldl initial_totals_def
        settlement_totals_def image_image)
  have act: "unlockedActivities (getSettlementData xs) =
     (\<Union>x\<in>set xs. set (unlockActivities (settlement x)))"
    by (simp add: getSettlementData_def activities_foldl initial_totals_def
        settlement_totals_def)
  have perm: "mset xs = mset ys \<longrightarrow> getSettlementData xs = getSettlementData ys"
    by (simp add: getSettlementData_def foldl_merge_totals_perm)
  have init: "initial_totals =
     \<lparr>leadershipActivityNumber = 2, settlementConsumption = 0,
      storage = \<lparr>food = 0, luxuries = 0, ore = 0, lumber = 0, stone = 0\<rparr>,
      unlockedActivities = {}\<rparr>"
    by (simp add: initial_totals_def)
  have regroup: "merge_totals (getSettlementData (xs @ ys)) (getSettlementData zs) =
      merge_totals (getSettlementData xs) (getSettlementData (ys @ zs))"
    by (simp add: getSettlementData_append merge_totals_assoc)
  note algebra = merge_totals_commute [of a b] merge_totals_assoc [of a b c]
    getSettlementData_append [of xs ys]
  from empty init step cons stor lead act algebra perm regroup show ?thesis
    by blast
qed

theorem getSettlementData_fold_witness:
  "mset [sample_capital, sample_village] = mset [sample_village, sample_capital] \<and>
   getSettlementData [sample_capital, sample_village] =
     getSettlementData [sample_village, sample_capital] \<and>
   getSettlementData [sample_capital, sample_village] =
     \<lparr>leadershipActivityNumber = 3, settlementConsumption = 3,
      storage = \<lparr>food = 1, luxuries = 1, ore = 2, lumber = 4, stone = 1\<rparr>,
      unlockedActivities = {''establish-trade-agreement'', ''quell-unrest''}\<rparr>"
proof -
  have p: "mset [sample_capital, sample_village] = mset [sample_village, sample_capital]"
    by (simp add: add.commute)
  have swap: "getSettlementData [sample_capital, sample_village] =
      getSettlementData [sample_village, sample_capital]"
    using getSettlementData_fold [of "[sample_capital, sample_village]" _ _ _ _ "[sample_village, sample_capital]"] p
    by blast
  have val: "getSettlementData [sample_capital, sample_village] =
     \<lparr>leadershipActivityNumber = 3, settlementConsumption = 3,
      storage = \<lparr>food = 1, luxuries = 1, ore = 2, lumber = 4, stone = 1\<rparr>,
      unlockedActivities = {''establish-trade-agreement'', ''quell-unrest''}\<rparr>"
    by (simp add: getSettlementData_def merge_totals_def initial_totals_def settlement_totals_def
        sample_capital_def sample_village_def insert_commute)
  show ?thesis using p swap val by simp
qed

section \<open>Properties of the structure browser\<close>

lemma array_some_iff: "array_some p xs \<longleftrightarrow> (\<exists>x\<in>set xs. p x)"
  by (induction xs) auto

lemma requirement_met_iff:
  "requirement_met k r \<longleftrightarrow>
     (\<exists>rank. skillRanks k (skill r) = Some rank \<and>
        (case proficiencyRank r of None \<Rightarrow> 0 | Some n \<Rightarrow> n) \<le> rank)"
  by (cases "skillRanks k (skill r)") (simp_all add: requirement_met_def)

text \<open>
  Claim C5 as stated fails. It asks for every skill requirement to be met, but
  \<^verbatim>\<open>checkProficiency\<close> uses \<^verbatim>\<open>some\<close>: the sample structure lists trade (trained) and arts
  (master), the sample kingdom is trained in trade and untrained in arts, and the gate
  lets the structure through.
\<close>

theorem checkProficiency_every_counterexample:
  "checkProficiency sample_structure sample_kingdom \<and>
   construction_skills sample_structure = Some [trade_trained, arts_master] \<and>
   \<not> list_all (requirement_met sample_kingdom) [trade_trained, arts_master]"
  by (simp add: checkProficiency_def construction_skills_def sample_structure_def
      requirement_met_def sample_kingdom_def trade_trained_def arts_master_def)

text \<open>
  Claim C5, amended. \<^verbatim>\<open>checkProficiency\<close> returns true if and only if the structure has no
  construction skill requirements (no construction data, no skill list or an empty one),
  or at least one of its skill requirements is met by the kingdom's recorded rank for
  that skill (kingdom rank at least the required rank, a missing required rank counting
  as 0).
\<close>

theorem checkProficiency_some:
  "checkProficiency s k \<longleftrightarrow>
     construction_skills s = None \<or> construction_skills s = Some [] \<or>
     (\<exists>reqs r rank. construction_skills s = Some reqs \<and> r \<in> set reqs \<and>
        skillRanks k (skill r) = Some rank \<and>
        (case proficiencyRank r of None \<Rightarrow> 0 | Some n \<Rightarrow> n) \<le> rank)"
proof (cases "construction_skills s")
  case None
  then show ?thesis
    by (simp add: checkProficiency_def)
next
  case (Some reqs)
  have "array_some (requirement_met k) reqs \<longleftrightarrow>
      (\<exists>r rank. r \<in> set reqs \<and> skillRanks k (skill r) = Some rank \<and>
         (case proficiencyRank r of None \<Rightarrow> 0 | Some n \<Rightarrow> n) \<le> rank)"
    unfolding array_some_iff requirement_met_iff by blast
  with Some show ?thesis
    by (simp add: checkProficiency_def)
qed

theorem checkProficiency_some_witness:
  "checkProficiency sample_structure sample_kingdom \<and>
   checkProficiency \<lparr>construction = None\<rparr> sample_kingdom \<and>
   checkProficiency \<lparr>construction = Some \<lparr>skills = Some []\<rparr>\<rparr> sample_kingdom \<and>
   \<not> checkProficiency \<lparr>construction = Some \<lparr>skills = Some [arts_master]\<rparr>\<rparr> sample_kingdom"
proof -
  have two: "construction_skills sample_structure = Some [trade_trained, arts_master]"
    by (simp add: construction_skills_def sample_structure_def)
  have trade: "skillRanks sample_kingdom (skill trade_trained) = Some 1"
    by (simp add: sample_kingdom_def trade_trained_def)
  have need: "proficiencyRank trade_trained = Some 1"
    by (simp add: trade_trained_def)
  have a: "checkProficiency sample_structure sample_kingdom"
    using checkProficiency_some [of sample_structure sample_kingdom] two trade need by auto
  have b: "checkProficiency \<lparr>construction = None\<rparr> sample_kingdom"
    using checkProficiency_some [of "\<lparr>construction = None\<rparr>" sample_kingdom]
    by (simp add: construction_skills_def)
  have c: "checkProficiency \<lparr>construction = Some \<lparr>skills = Some []\<rparr>\<rparr> sample_kingdom"
    using checkProficiency_some [of "\<lparr>construction = Some \<lparr>skills = Some []\<rparr>\<rparr>" sample_kingdom]
    by (simp add: construction_skills_def)
  have d: "\<not> checkProficiency \<lparr>construction = Some \<lparr>skills = Some [arts_master]\<rparr>\<rparr> sample_kingdom"
    using checkProficiency_some [of "\<lparr>construction = Some \<lparr>skills = Some [arts_master]\<rparr>\<rparr>" sample_kingdom]
    by (simp add: construction_skills_def arts_master_def sample_kingdom_def)
  show ?thesis using a b c d by simp
qed

section \<open>Properties of collecting resources\<close>

lemma insiderTradingResources_iff:
  "insiderTradingResources fs bs =
     (if (\<exists>f\<in>set fs. feat_id f = ''Insider Trading'') \<or>
         (\<exists>f\<in>set bs. bonus_feat_id f = ''Insider Trading'') then 1 else 0)"
  by (simp add: insiderTradingResources_def array_some_iff)

text \<open>
  Claim C3 as stated fails. The number of dice is the base number of resource dice from
  \<^verbatim>\<open>getLevelData\<close> plus the stored dice plus the feat dice, so with two stored dice and
  no feat it is 2 only when the base number is 0. With five base dice the kingdom rolls
  \<^verbatim>\<open>7d6\<close>.
\<close>

theorem collectResources_rolls_seven_counterexample:
  "kingdom_size sample_kingdom = 12 \<and>
   resourceDieSize (sample_getSizeData 12) = ''d6'' \<and>
   now (resourceDice sample_kingdom) = 2 \<and>
   feats sample_kingdom = [] \<and> bonusFeats sample_kingdom = [] \<and>
   resource_dice_count sample_getLevelData sample_kingdom = 7 \<and>
   resource_dice_count sample_getLevelData sample_kingdom \<noteq> 2 \<and>
   take 1 (fst (collectResources sample_getLevelData sample_getSizeData [] sample_kingdom 20)) =
     [RollMessage ''7d6'' ''Rolling Resource Dice'']"
  by (simp add: collectResources_def resource_dice_count_def insiderTradingResources_def
      rollResourceDice_formula_def number_to_string_def digits.simps Let_def
      sample_kingdom_def sample_getLevelData_def sample_getSizeData_def)

text \<open>
  Claim C3, amended. For a kingdom whose size has resource die d6, with
  \<open>resourceDice.now = 2\<close>, \<^verbatim>\<open>collectResources\<close> rolls \<open>(base + 2)d6\<close> when no feat or
  bonus feat is "Insider Trading", where \<open>base\<close> is the number of resource dice
  \<^verbatim>\<open>getLevelData\<close> gives for the kingdom's size, and exactly one die more when such a
  feat is present; it adds the rolled total to \<open>resourcePoints.now\<close> and resets
  \<open>resourceDice.now\<close> to 0.
\<close>

theorem collectResources_roll:
  assumes "resourceDieSize (getSizeData (kingdom_size k)) = ''d6''"
    and "now (resourceDice k) = 2"
    and "base = level_resourceDice (getLevelData (kingdom_size k))"
    and "out = collectResources getLevelData getSizeData settlements k rolled"
  shows "((\<forall>f\<in>set (feats k). feat_id f \<noteq> ''Insider Trading'') \<and>
          (\<forall>f\<in>set (bonusFeats k). bonus_feat_id f \<noteq> ''Insider Trading'') \<longrightarrow>
            resource_dice_count getLevelData k = base + 2 \<and>
            take 1 (fst out) =
              [RollMessage (number_to_string (base + 2) @ ''d6'') ''Rolling Resource Dice'']) \<and>
         ((\<exists>f\<in>set (feats k). feat_id f = ''Insider Trading'') \<or>
          (\<exists>f\<in>set (bonusFeats k). bonus_feat_id f = ''Insider Trading'') \<longrightarrow>
            resource_dice_count getLevelData k = base + 2 + 1 \<and>
            take 1 (fst out) =
              [RollMessage (number_to_string (base + 2 + 1) @ ''d6'') ''Rolling Resource Dice'']) \<and>
         upd_resourcePoints (snd out) =
           Some \<lparr>now = now (resourcePoints k) + rolled, nxt = nxt (resourcePoints k)\<rparr> \<and>
         upd_resourceDice (snd out) = Some \<lparr>now = 0, nxt = nxt (resourceDice k)\<rparr> \<and>
         now (resourcePoints (saveKingdom k (snd out))) = now (resourcePoints k) + rolled \<and>
         now (resourceDice (saveKingdom k (snd out))) = 0"
  using assms
  by (auto simp: collectResources_def resource_dice_count_def insiderTradingResources_iff
      rollResourceDice_formula_def Let_def saveKingdom_def no_fields_def)


theorem collectResources_roll_witness:
  "resourceDieSize (sample_getSizeData (kingdom_size sample_kingdom)) = ''d6'' \<and>
   now (resourceDice sample_kingdom) = 2 \<and>
   take 1 (fst (collectResources sample_getLevelData sample_getSizeData [] sample_kingdom 20)) =
     [RollMessage ''7d6'' ''Rolling Resource Dice''] \<and>
   take 1 (fst (collectResources sample_getLevelData sample_getSizeData []
       (sample_kingdom\<lparr>feats := [insider_trading]\<rparr>) 20)) =
     [RollMessage ''8d6'' ''Rolling Resource Dice''] \<and>
   now (resourcePoints (saveKingdom sample_kingdom
       (snd (collectResources sample_getLevelData sample_getSizeData [] sample_kingdom 20)))) = 27 \<and>
   now (resourceDice (saveKingdom sample_kingdom
       (snd (collectResources sample_getLevelData sample_getSizeData [] sample_kingdom 20)))) = 0"
proof -
  let ?k = "sample_kingdom\<lparr>feats := [insider_trading]\<rparr>"
  have die: "resourceDieSize (sample_getSizeData (kingdom_size sample_kingdom)) = ''d6''"
    "resourceDieSize (sample_getSizeData (kingdom_size ?k)) = ''d6''"
    by (simp_all add: sample_getSizeData_def)
  have stored: "now (resourceDice sample_kingdom) = 2" "now (resourceDice ?k) = 2"
    by (simp_all add: sample_kingdom_def)
  have base: "5 = level_resourceDice (sample_getLevelData (kingdom_size sample_kingdom))"
    "5 = level_resourceDice (sample_getLevelData (kingdom_size ?k))"
    by (simp_all add: sample_getLevelData_def)
  have none: "feats sample_kingdom = []" "bonusFeats sample_kingdom = []"
    and points: "now (resourcePoints sample_kingdom) = 7"
    by (simp_all add: sample_kingdom_def)
  have seven: "number_to_string (5 + 2) = ''7''" and eight: "number_to_string (5 + 2 + 1) = ''8''"
    by (simp_all add: number_to_string_def digits.simps)
  have plain:
    "take 1 (fst (collectResources sample_getLevelData sample_getSizeData [] sample_kingdom 20)) =
       [RollMessage ''7d6'' ''Rolling Resource Dice'']"
    "now (resourcePoints (saveKingdom sample_kingdom
       (snd (collectResources sample_getLevelData sample_getSizeData [] sample_kingdom 20)))) = 27"
    "now (resourceDice (saveKingdom sample_kingdom
       (snd (collectResources sample_getLevelData sample_getSizeData [] sample_kingdom 20)))) = 0"
    using collectResources_roll [where getSizeData = sample_getSizeData and k = sample_kingdom
        and base = 5 and getLevelData = sample_getLevelData and settlements = "[]" and rolled = 20,
        OF die(1) stored(1) base(1) refl] none points seven
    by simp_all
  have trading:
    "take 1 (fst (collectResources sample_getLevelData sample_getSizeData [] ?k 20)) =
       [RollMessage ''8d6'' ''Rolling Resource Dice'']"
    using collectResources_roll [where getSizeData = sample_getSizeData and k = ?k
        and base = 5 and getLevelData = sample_getLevelData and settlements = "[]" and rolled = 20,
        OF die(2) stored(2) base(2) refl] eight
    by (simp add: insider_trading_def)
  show ?thesis using die(1) stored(1) plain trading by simp
qed

lemma collectResources_commodities:
  "upd_commodities (snd (collectResources getLevelData getSizeData settlements k rolled)) =
     Some \<lparr>now =
             \<lparr>food = food (now (commodities k)),
              luxuries = min (luxuries (getCapacity settlements (getSizeData (kingdom_size k))))
                 (luxuries (calculateCommoditiesThisTurn k)),
              ore = min (ore (getCapacity settlements (getSizeData (kingdom_size k))))
                 (ore (calculateCommoditiesThisTurn k)),
              lumber = min (lumber (getCapacity settlements (getSizeData (kingdom_size k))))
                 (lumber (calculateCommoditiesThisTurn k)),
              stone = min (stone (getCapacity settlements (getSizeData (kingdom_size k))))
                 (stone (calculateCommoditiesThisTurn k))\<rparr>,
           nxt = nxt (commodities k)\<rparr>"
  by (simp add: collectResources_def Let_def)

text \<open>
  Claim C2 says that after \<^verbatim>\<open>collectResources\<close> each non-food commodity's \<open>now\<close> value
  is its previous value plus the work-site yield, clamped to the storage capacity. The
  code writes the clamped yield alone and drops the previous value: the sample kingdom
  holds 3 ore, its mines yield 1 and the capacity is 4, yet it ends with 1 ore, not 4.
\<close>

theorem collectResources_overwrites_stock:
  "ore (now (commodities sample_kingdom)) = 3 \<and>
   ore (calculateCommoditiesThisTurn sample_kingdom) = 1 \<and>
   ore (getCapacity [] (sample_getSizeData (kingdom_size sample_kingdom))) = 4 \<and>
   map_option (\<lambda>c. ore (now c)) (upd_commodities
     (snd (collectResources sample_getLevelData sample_getSizeData [] sample_kingdom 20))) = Some 1 \<and>
   ore (now (commodities (saveKingdom sample_kingdom
     (snd (collectResources sample_getLevelData sample_getSizeData [] sample_kingdom 20))))) = 1"
  by (simp add: collectResources_commodities saveKingdom_def calculateCommoditiesThisTurn_def
      getCapacity_def calculateStorageCapacity_def getSettlementData_def initial_totals_def
      sample_getSizeData_def sample_kingdom_def)

section \<open>Properties of ending the turn\<close>

lemma endTurn_update:
  "snd (endTurn getSizeData settlements k) =
     no_fields
       \<lparr>upd_resourceDice := Some \<lparr>now = nxt (resourcePoints k), nxt = 0\<rparr>,
        upd_resourcePoints := Some \<lparr>now = nxt (resourcePoints k), nxt = 0\<rparr>,
        upd_consumption := Some \<lparr>now = nxt (consumption k), nxt = 0, armies = armies (consumption k)\<rparr>,
        upd_commodities := Some
          \<lparr>now =
             \<lparr>food = min (food (getCapacity settlements (getSizeData (kingdom_size k))))
                 (food (now (commodities k)) + food (nxt (commodities k))),
              luxuries = min (luxuries (getCapacity settlements (getSizeData (kingdom_size k))))
                 (luxuries (now (commodities k)) + luxuries (nxt (commodities k))),
              ore = min (ore (getCapacity settlements (getSizeData (kingdom_size k))))
                 (ore (now (commodities k)) + ore (nxt (commodities k))),
              lumber = min (lumber (getCapacity settlements (getSizeData (kingdom_size k))))
                 (lumber (now (commodities k)) + lumber (nxt (commodities k))),
              stone = min (stone (getCapacity settlements (getSizeData (kingdom_size k))))
                 (stone (now (commodities k)) + stone (nxt (commodities k)))\<rparr>,
           nxt = \<lparr>food = 0, luxuries = 0, ore = 0, lumber = 0, stone = 0\<rparr>\<rparr>\<rparr>"
  by (simp add: endTurn_def Let_def)

text \<open>
  Claim C1 says that \<^verbatim>\<open>endTurn\<close> moves each next-turn counter into its own \<open>now\<close> column.
  The code fills \<open>resourceDice.now\<close> from \<open>resourcePoints.next\<close>: the sample kingdom has
  1 resource die and 5 resource points stored for the next turn, and ends the turn with 5
  resource dice.
\<close>

theorem endTurn_resourceDice_takes_resourcePoints:
  "nxt (resourceDice sample_kingdom) = 1 \<and> nxt (resourcePoints sample_kingdom) = 5 \<and>
   upd_resourceDice (snd (endTurn sample_getSizeData [] sample_kingdom)) =
     Some \<lparr>now = 5, nxt = 0\<rparr> \<and>
   resourceDice (saveKingdom sample_kingdom (snd (endTurn sample_getSizeData [] sample_kingdom))) =
     \<lparr>now = 5, nxt = 0\<rparr>"
  by (simp add: endTurn_update saveKingdom_def no_fields_def sample_kingdom_def)

section \<open>Properties of adjusting unrest\<close>

lemma adjustUnrest_update:
  "upd_unrest (snd (adjustUnrest data k hex_roll)) =
     Some (let increase = (if atWar k then 1 else 0) +
                 int (length (filter (\<lambda>s. overcrowded (scenedData s)) data)) +
                 (if \<exists>s\<in>set data. secondaryTerritory (scenedData s) then 1 else 0)
           in if level k \<ge> 20 \<and> increase + unrest k > 0 then 0 else increase + unrest k)"
  by (simp add: adjustUnrest_def Let_def array_some_iff)

text \<open>
  Claim C6 says that at level 20 only the turn's increase is suppressed, so the committed
  unrest is the unrest the kingdom already had. The code sets the whole sum to 0: a
  level 20 kingdom with 5 unrest and an overcrowded village in a secondary territory
  posts the "ignoring unrest increase" message and commits 0 unrest.
\<close>

theorem adjustUnrest_level20_clears_unrest:
  "level (sample_kingdom\<lparr>level := 20, unrest := 5\<rparr>) = 20 \<and>
   unrest (sample_kingdom\<lparr>level := 20, unrest := 5\<rparr>) = 5 \<and>
   adjustUnrest [sample_village] (sample_kingdom\<lparr>level := 20, unrest := 5\<rparr>) 1 =
     ([ChatMessage IgnoringUnrestIncrease], no_fields\<lparr>upd_unrest := Some 0\<rparr>) \<and>
   unrest (saveKingdom (sample_kingdom\<lparr>level := 20, unrest := 5\<rparr>)
     (snd (adjustUnrest [sample_village] (sample_kingdom\<lparr>level := 20, unrest := 5\<rparr>) 1))) = 0"
  by (simp add: adjustUnrest_def calculateAnarchy_def Let_def saveKingdom_def no_fields_def
      sample_kingdom_def sample_village_def)

end
